theory Spec2Isabelle
  imports Complex_Main
begin

section \<open>Arrays\<close>

text \<open>
  The scripts compute on numpy arrays. A one-dimensional array is a list. A
  two-dimensional array is its list of rows together with the number of columns, which
  a list of rows alone loses when there is no row: an array of shape \<open>(0, m)\<close>
  transposes to \<open>m\<close> empty rows.

  Floating-point numbers are read as real numbers throughout; the operations that only
  move entries around (\<open>repeat\<close>, \<open>transpose\<close>, slicing, masking) are stated for any
  entry type.
\<close>

record 'a array2 =
  ncols :: nat
  rows :: "'a list list"

definition shape :: "'a array2 \<Rightarrow> nat \<times> nat" where
  "shape A = (length (rows A), ncols A)"

text \<open>\<^verbatim>\<open>a[:, np.newaxis]\<close>: a vector of length \<open>n\<close> becomes an \<open>n\<close> by 1 array.\<close>

definition newaxis :: "'a list \<Rightarrow> 'a array2" where
  "newaxis a = \<lparr>ncols = 1, rows = map (\<lambda>x. [x]) a\<rparr>"

text \<open>
  \<^verbatim>\<open>np.repeat(A, k, axis=0)\<close> writes every row \<open>k\<close> times in a run;
  \<^verbatim>\<open>np.repeat(A, k, axis=1)\<close> does the same to the entries of each row.
\<close>

definition repeat_axis0 :: "'a array2 \<Rightarrow> nat \<Rightarrow> 'a array2" where
  "repeat_axis0 A k = \<lparr>ncols = ncols A, rows = concat (map (replicate k) (rows A))\<rparr>"

definition repeat_axis1 :: "'a array2 \<Rightarrow> nat \<Rightarrow> 'a array2" where
  "repeat_axis1 A k =
     \<lparr>ncols = ncols A * k, rows = map (\<lambda>r. concat (map (replicate k) r)) (rows A)\<rparr>"

text \<open>\<^verbatim>\<open>np.transpose(A)\<close> of a two-dimensional array.\<close>

definition np_transpose :: "'a array2 \<Rightarrow> 'a array2" where
  "np_transpose A =
     \<lparr>ncols = length (rows A), rows = map (\<lambda>j. map (\<lambda>r. r ! j) (rows A)) [0..<ncols A]\<rparr>"

text \<open>\<^verbatim>\<open>A - c\<close> for a scalar \<open>c\<close>.\<close>

definition sub_scalar :: "real array2 \<Rightarrow> real \<Rightarrow> real array2" where
  "sub_scalar A c = \<lparr>ncols = ncols A, rows = map (map (\<lambda>a. a - c)) (rows A)\<rparr>"

section \<open>compare\_models.py: the laterally uniform quantities\<close>

text \<open>
  \<^verbatim>\<open>
  def pybamm_bar_var_fun(t, z):
      if t.shape[0] == 1:
          return np.repeat(I_av(t)[:, np.newaxis], len(z), axis=0)
      else:
          return np.transpose(np.repeat(I_av(t)[:, np.newaxis], len(z), axis=1))
  \<close>
  \<open>I_av\<close> is a processed variable of the averaged model with no spatial dependence:
  called on a time vector it returns a vector. The two branches are kept apart, as in
  the source.
\<close>

definition single_instant_branch :: "('t list \<Rightarrow> 'a list) \<Rightarrow> 't list \<Rightarrow> 'z list \<Rightarrow> 'a array2" where
  "single_instant_branch I_av t z = repeat_axis0 (newaxis (I_av t)) (length z)"

definition general_branch :: "('t list \<Rightarrow> 'a list) \<Rightarrow> 't list \<Rightarrow> 'z list \<Rightarrow> 'a array2" where
  "general_branch I_av t z = np_transpose (repeat_axis1 (newaxis (I_av t)) (length z))"

definition pybamm_bar_var_fun :: "('t list \<Rightarrow> 'a list) \<Rightarrow> 't list \<Rightarrow> 'z list \<Rightarrow> 'a array2" where
  "pybamm_bar_var_fun I_av t z =
     (if length t = 1 then single_instant_branch I_av t z else general_branch I_av t z)"

text \<open>
  A processed variable without spatial dependence is a function of time alone; on a
  vector of times it is evaluated at each entry. The interpolant \<open>f\<close> belongs to the
  simulation library and stays a parameter.
\<close>

definition evaluate_0d :: "('t \<Rightarrow> 'a) \<Rightarrow> 't list \<Rightarrow> 'a list" where
  "evaluate_0d f t = map f t"

text \<open>
  \<^verbatim>\<open>A[:, lo:hi]\<close>: the columns from \<open>lo\<close> up to, not including, \<open>hi\<close>.
\<close>

definition slice_cols :: "'a array2 \<Rightarrow> nat \<Rightarrow> nat \<Rightarrow> 'a array2" where
  "slice_cols A lo hi =
     \<lparr>ncols = min hi (ncols A) - lo, rows = map (\<lambda>r. drop lo (take hi r)) (rows A)\<rparr>"

text \<open>
  The temperature closure (source lines 303 to 307) is the same broadcast of \<open>T_av\<close>
  with the reference temperature subtracted in each branch:
  \<^verbatim>\<open>
  def pybamm_bar_var_fun(t, z):
      if t.shape[0] == 1:
          return np.repeat(T_av(t)[:, np.newaxis], len(z), axis=0) - T_ref
      else:
          return np.transpose(np.repeat(T_av(t)[:, np.newaxis], len(z), axis=1)) - T_ref
  \<close>
\<close>

definition pybamm_bar_var_fun_temperature ::
  "('t list \<Rightarrow> real list) \<Rightarrow> real \<Rightarrow> 't list \<Rightarrow> 'z list \<Rightarrow> real array2" where
  "pybamm_bar_var_fun_temperature T_av T_ref t z =
     (if length t = 1 then sub_scalar (single_instant_branch T_av t z) T_ref
      else sub_scalar (general_branch T_av t z) T_ref)"

section \<open>compare\_models.py: potentials and temperature\<close>

datatype py_error = IndexError | KeyError | ValueError | UnboundLocalError

text \<open>
  \<^verbatim>\<open>A - v\<close> for a two-dimensional \<open>A\<close> and a vector \<open>v\<close>. numpy aligns the last
  axis of \<open>A\<close> with \<open>v\<close>; the two lengths must be equal or one of them must be one,
  and anything else raises \<open>ValueError\<close>.
\<close>

definition sub_row :: "real array2 \<Rightarrow> real list \<Rightarrow> py_error + real array2" where
  "sub_row A v =
     (if ncols A = length v then
        Inr \<lparr>ncols = ncols A, rows = map (\<lambda>r. map2 (-) r v) (rows A)\<rparr>
      else if length v = 1 then
        Inr \<lparr>ncols = ncols A, rows = map (map (\<lambda>a. a - hd v)) (rows A)\<rparr>
      else if ncols A = 1 then
        Inr \<lparr>ncols = length v, rows = map (\<lambda>r. map (\<lambda>b. hd r - b) v) (rows A)\<rparr>
      else Inl ValueError)"

text \<open>\<^verbatim>\<open>np.abs(A - B)\<close> for two arrays of one shape.\<close>

definition abs_sub :: "real array2 \<Rightarrow> real array2 \<Rightarrow> real array2" where
  "abs_sub A B =
     \<lparr>ncols = ncols A, rows = map2 (map2 (\<lambda>a b. \<bar>a - b\<bar>)) (rows A) (rows B)\<rparr>"

text \<open>
  A processed variable with one spatial dimension, called with a time vector and a
  space vector, returns the grid of its values with space along the first axis and
  time along the second. The interpolant is the simulation library's and stays a
  parameter.
\<close>

definition evaluate_1d :: "('t \<Rightarrow> 'z \<Rightarrow> 'a) \<Rightarrow> 't list \<Rightarrow> 'z list \<Rightarrow> 'a array2" where
  "evaluate_1d g t z = \<lparr>ncols = length t, rows = map (\<lambda>zj. map (\<lambda>ti. g ti zj) t) z\<rparr>"

text \<open>
  What the script takes from its collaborators: the evaluated effective resistance of
  the current-collector problem, the variables of the averaged model (functions of
  time), of the 1+1D model and of the reference model (functions of time and of the
  lateral coordinate), the current-collector model's potentials, and the evaluated
  parameters.
\<close>

record inputs =
  effective_resistance :: "real list list"
  average_dfn :: "string \<Rightarrow> real \<Rightarrow> real"
  full_dfn :: "string \<Rightarrow> real \<Rightarrow> real \<Rightarrow> real"
  comsol :: "string \<Rightarrow> real \<Rightarrow> real \<Rightarrow> real"
  get_processed_potentials ::
    "(real list \<Rightarrow> real list) \<Rightarrow> (real list \<Rightarrow> real list) \<Rightarrow> string
      \<Rightarrow> real list \<Rightarrow> real list \<Rightarrow> real array2"
  potential_scale :: real
  U_p_ref :: real
  U_n_ref :: real
  T_ref :: real

text \<open>
  \<^verbatim>\<open>R_cc = param.process_symbol(...).evaluate(t=..., y=...)[0][0]\<close>: the entry
  \<open>[0][0]\<close> of the evaluated resistance, computed once at top level.
\<close>

definition R_cc :: "inputs \<Rightarrow> py_error + real" where
  "R_cc inp =
     (case effective_resistance inp of
        [] \<Rightarrow> Inl IndexError
      | row # _ \<Rightarrow> (case row of [] \<Rightarrow> Inl IndexError | r # _ \<Rightarrow> Inr r))"

text \<open>
  \<^verbatim>\<open>
  def V_av(t):
      return V_av_1D(t) - I_av(t) * R_cc
  \<close>
  Both processed variables return a vector of the length of \<open>t\<close>; \<open>R_cc\<close> is a scalar.
  The closure reads the global \<open>I_av\<close> when it is called: every call happens while
  \<open>I_av\<close> is still the total current density (it is bound to another variable only
  after the two potential plots), so that binding is the one passed here.
\<close>

definition V_av :: "(real \<Rightarrow> real) \<Rightarrow> (real \<Rightarrow> real) \<Rightarrow> real \<Rightarrow> real list \<Rightarrow> real list" where
  "V_av V_av_1D I_av R t =
     map2 (-) (evaluate_0d V_av_1D t) (map (\<lambda>i. i * R) (evaluate_0d I_av t))"

definition V_av_script :: "inputs \<Rightarrow> real \<Rightarrow> real list \<Rightarrow> real list" where
  "V_av_script inp R =
     V_av (average_dfn inp ''Terminal voltage'') (average_dfn inp ''Total current density'') R"

definition potentials :: "inputs \<Rightarrow> real \<Rightarrow> string \<Rightarrow> real list \<Rightarrow> real list \<Rightarrow> real array2" where
  "potentials inp R =
     get_processed_potentials inp (V_av_script inp R)
       (evaluate_0d (average_dfn inp ''Total current density''))"

text \<open>The negative-collector closure is the processed potential itself (line 144).\<close>

definition pybamm_bar_var_fun_negative ::
  "inputs \<Rightarrow> real \<Rightarrow> real list \<Rightarrow> real list \<Rightarrow> real array2" where
  "pybamm_bar_var_fun_negative inp R =
     potentials inp R ''Negative current collector potential [V]''"

text \<open>
  \<^verbatim>\<open>
  U_ref = param.evaluate(U_p_ref) - param.evaluate(U_n_ref)
  def V_av_dim(t):
      return U_ref + V_av(t) * pot_scale
  def pybamm_bar_var_fun(t, z):
      return pybamm_bar_var(t=t, z=z) - V_av_dim(t)
  \<close>
\<close>

definition U_ref :: "inputs \<Rightarrow> real" where
  "U_ref inp = U_p_ref inp - U_n_ref inp"

definition V_av_dim :: "inputs \<Rightarrow> real \<Rightarrow> real list \<Rightarrow> real list" where
  "V_av_dim inp R t = map (\<lambda>u. U_ref inp + u) (map (\<lambda>v. v * potential_scale inp) (V_av_script inp R t))"

definition pybamm_bar_var_fun_positive ::
  "inputs \<Rightarrow> real \<Rightarrow> real list \<Rightarrow> real list \<Rightarrow> py_error + real array2" where
  "pybamm_bar_var_fun_positive inp R t z =
     sub_row (potentials inp R ''Positive current collector potential [V]'' t z)
       (V_av_dim inp R t)"

text \<open>
  The conversion rule as the specification words it, to compare \<open>V_av_dim\<close> with.
\<close>

definition to_dimensional_potential :: "real \<Rightarrow> real \<Rightarrow> real \<Rightarrow> real" where
  "to_dimensional_potential reference_offset scale phi_nondim =
     reference_offset + phi_nondim * scale"

text \<open>
  The temperature plot (lines 269 to 307): the reference field and the 1+1D field are
  processed variables in \<open>(t, z)\<close> minus \<open>T_ref\<close>; the averaged field is the
  broadcast of \<open>T_av\<close> minus \<open>T_ref\<close>.
\<close>

definition comsol_var_fun_temperature :: "inputs \<Rightarrow> real list \<Rightarrow> real list \<Rightarrow> real array2" where
  "comsol_var_fun_temperature inp t z =
     sub_scalar (evaluate_1d (comsol inp ''X-averaged cell temperature [K]'') t z) (T_ref inp)"

definition pybamm_var_fun_temperature :: "inputs \<Rightarrow> real list \<Rightarrow> real list \<Rightarrow> real array2" where
  "pybamm_var_fun_temperature inp t z =
     sub_scalar (evaluate_1d (full_dfn inp ''X-averaged cell temperature [K]'') t z) (T_ref inp)"

definition T_av :: "inputs \<Rightarrow> real list \<Rightarrow> real list" where
  "T_av inp = evaluate_0d (average_dfn inp ''X-averaged cell temperature [K]'')"

definition pybamm_bar_var_fun_temperature_script ::
  "inputs \<Rightarrow> real list \<Rightarrow> real list \<Rightarrow> real array2" where
  "pybamm_bar_var_fun_temperature_script inp =
     pybamm_bar_var_fun_temperature (T_av inp) (T_ref inp)"

text \<open>An instance of the inputs, to evaluate the closures on.\<close>

definition example_inputs :: inputs where
  "example_inputs =
     \<lparr>effective_resistance = [[2]],
      average_dfn = (\<lambda>name s. if name = ''Terminal voltage'' then 4 - s else 1),
      full_dfn = (\<lambda>name s y. s + y),
      comsol = (\<lambda>name s y. s * y),
      get_processed_potentials = (\<lambda>V I name. evaluate_1d (\<lambda>s y. s + 10 * y)),
      potential_scale = 3,
      U_p_ref = 5,
      U_n_ref = 1,
      T_ref = 298\<rparr>"

section \<open>supplementary/plot\_discharge\_curve.py: times up to the voltage cut-off\<close>

text \<open>
  \<^verbatim>\<open>
  voltage_OK = voltage[voltage > V_cutoff]
  time = time[0 : len(voltage_OK)]
  \<close>
  \<open>voltage\<close> is the terminal voltage evaluated at every entry of \<open>time\<close>. The two
  lines are guarded by a test that the solver is the one the script has just
  constructed, so they always run.
\<close>

definition voltage_OK :: "real list \<Rightarrow> real \<Rightarrow> real list" where
  "voltage_OK voltage V_cutoff = filter (\<lambda>v. v > V_cutoff) voltage"

definition restrict_time :: "'t list \<Rightarrow> real list \<Rightarrow> real \<Rightarrow> 't list" where
  "restrict_time time voltage V_cutoff = take (length (voltage_OK voltage V_cutoff)) time"

text \<open>
  For comparison, selecting the times by the mask itself, \<^verbatim>\<open>time[voltage > V_cutoff]\<close>,
  and the series whose samples above the cut-off all come before the first sample that
  is not above it.
\<close>

definition masked_time :: "'t list \<Rightarrow> real list \<Rightarrow> real \<Rightarrow> 't list" where
  "masked_time time voltage V_cutoff =
     map fst (filter (\<lambda>(s, v). v > V_cutoff) (zip time voltage))"

definition crosses_at_most_once_from_above :: "real list \<Rightarrow> real \<Rightarrow> bool" where
  "crosses_at_most_once_from_above voltage V_cutoff =
     list_all (\<lambda>v. \<not> v > V_cutoff) (dropWhile (\<lambda>v. v > V_cutoff) voltage)"

section \<open>supplementary/plot\_potentials\_concentrations.py: the reference data\<close>

text \<open>
  The interpolation library is not part of the repository. Its \<open>interp1d\<close> is modelled
  by what it checks and by where it interpolates; the value of the interpolant of a
  kind through the points \<open>(x, y)\<close> at a query \<open>q\<close> is a parameter, \<open>spl kind x y q\<close>.
  \<open>interp1d\<close> raises \<open>ValueError\<close> when \<open>x\<close> and the interpolation axis of \<open>y\<close>
  differ in length, when there are fewer points than the kind needs (order plus one:
  four for a cubic spline), and, with the default bounds check, when a query lies
  outside the range of \<open>x\<close>. The scripts only ever pass the kind \<open>cubic\<close>.
\<close>

datatype kind = Linear | Cubic

text \<open>
  The calls of \<open>interp1d\<close> that a function makes are returned next to its result, so
  that when an interpolation happens can be stated: \<open>Axis0\<close> is \<^verbatim>\<open>axis=0\<close>, the
  spatial axis of a reference field, \<open>AxisLast\<close> the default, its time axis.
\<close>

datatype axis = Axis0 | AxisLast

datatype interp_call = Interp1d kind axis

definition min_entries :: "kind \<Rightarrow> nat" where
  "min_entries k = (case k of Linear \<Rightarrow> 2 | Cubic \<Rightarrow> 4)"

definition out_of_bounds :: "real list \<Rightarrow> real \<Rightarrow> bool" where
  "out_of_bounds x q = (list_all (\<lambda>xi. q < xi) x \<or> list_all (\<lambda>xi. xi < q) x)"

definition column :: "'a array2 \<Rightarrow> nat \<Rightarrow> 'a list" where
  "column A c = map (\<lambda>r. r ! c) (rows A)"

text \<open>
  \<^verbatim>\<open>interp1d(x, Y, axis=0, kind=k)(qs)\<close> for a field \<open>Y\<close> indexed [space, time]:
  every time column is interpolated over \<open>x\<close> and evaluated at every query.
  \<^verbatim>\<open>interp1d(x, Y, kind=k)(q)\<close> interpolates every row over \<open>x\<close> at the scalar \<open>q\<close>.
\<close>

definition interp1d_axis0 ::
  "(kind \<Rightarrow> real list \<Rightarrow> real list \<Rightarrow> real \<Rightarrow> real) \<Rightarrow> kind \<Rightarrow> real list \<Rightarrow> real array2
    \<Rightarrow> real list \<Rightarrow> py_error + real array2" where
  "interp1d_axis0 spl k x Y qs =
     (if length x \<noteq> length (rows Y) then Inl ValueError
      else if length x < min_entries k then Inl ValueError
      else if list_ex (out_of_bounds x) qs then Inl ValueError
      else Inr \<lparr>ncols = ncols Y,
                rows = map (\<lambda>q. map (\<lambda>c. spl k x (column Y c) q) [0..<ncols Y]) qs\<rparr>)"

definition interp1d_last_axis ::
  "(kind \<Rightarrow> real list \<Rightarrow> real list \<Rightarrow> real \<Rightarrow> real) \<Rightarrow> kind \<Rightarrow> real list \<Rightarrow> real array2
    \<Rightarrow> real \<Rightarrow> py_error + real list" where
  "interp1d_last_axis spl k x Y q =
     (if length x \<noteq> ncols Y then Inl ValueError
      else if length x < min_entries k then Inl ValueError
      else if out_of_bounds x q then Inl ValueError
      else Inr (map (\<lambda>r. spl k x r q) (rows Y)))"

text \<open>
  The globals of the script: the loaded reference data (coordinate vectors and fields
  by name, and its time vector), the evaluated length and time scales, the node and
  edge positions of the simulation mesh by domain, and the interpolant.
\<close>

record plot_env =
  comsol_vectors :: "string \<rightharpoonup> real list"
  comsol_matrices :: "string \<rightharpoonup> real array2"
  comsol_t :: "real list"
  L_x :: real
  tau :: real
  mesh_nodes :: "string list \<Rightarrow> real list"
  mesh_edges :: "string list \<Rightarrow> real list"
  spline :: "kind \<Rightarrow> real list \<Rightarrow> real list \<Rightarrow> real \<Rightarrow> real"

definition whole_cell :: "string list" where
  "whole_cell = [''negative electrode'', ''separator'', ''positive electrode'']"

definition interp_kind :: kind where
  "interp_kind = Cubic"

text \<open>
  \<^verbatim>\<open>
  def get_interp_fun(variable_name, domain, eval_on_edges=False):
      variable = comsol_variables[variable_name]
      if domain == ["negative electrode"]:
          comsol_x = comsol_variables["x_n"]
      elif domain == ["separator"]:
          comsol_x = comsol_variables["x_s"]
      elif domain == ["positive electrode"]:
          comsol_x = comsol_variables["x_p"]
      elif domain == whole_cell:
          comsol_x = comsol_variables["x"]
      # Make sure to use dimensional space
      if eval_on_edges:
          pybamm_x = mesh.combine_submeshes(*domain)[0].edges * L_x
      else:
          pybamm_x = mesh.combine_submeshes(*domain)[0].nodes * L_x
      variable = interp.interp1d(comsol_x, variable, axis=0, kind=interp_kind)(pybamm_x)

      def myinterp(t):
          return interp.interp1d(comsol_t, variable, kind=interp_kind)(t)[:, np.newaxis]

      # Make sure to use dimensional time
      fun = pybamm.Function(myinterp, pybamm.t * tau, name=variable_name + "_comsol")
      fun.domain = domain
      return fun
  \<close>
  A missing key raises \<open>KeyError\<close>; a domain that matches no branch leaves \<open>comsol_x\<close>
  unbound, and its use raises \<open>UnboundLocalError\<close>. The returned function is the
  closure over the remapped \<open>variable\<close> with its name and domain.
\<close>

definition lookup :: "(string \<rightharpoonup> 'a) \<Rightarrow> string \<Rightarrow> py_error + 'a" where
  "lookup d key = (case d key of None \<Rightarrow> Inl KeyError | Some v \<Rightarrow> Inr v)"

definition comsol_x_of :: "plot_env \<Rightarrow> string list \<Rightarrow> py_error + real list" where
  "comsol_x_of env domain =
     (if domain = [''negative electrode''] then lookup (comsol_vectors env) ''x_n''
      else if domain = [''separator''] then lookup (comsol_vectors env) ''x_s''
      else if domain = [''positive electrode''] then lookup (comsol_vectors env) ''x_p''
      else if domain = whole_cell then lookup (comsol_vectors env) ''x''
      else Inl UnboundLocalError)"

definition pybamm_x :: "plot_env \<Rightarrow> string list \<Rightarrow> bool \<Rightarrow> real list" where
  "pybamm_x env domain eval_on_edges =
     (if eval_on_edges then map (\<lambda>x. x * L_x env) (mesh_edges env domain)
      else map (\<lambda>x. x * L_x env) (mesh_nodes env domain))"

record interp_fun =
  variable :: "real array2"
  fun_name :: string
  fun_domain :: "string list"

definition get_interp_fun ::
  "plot_env \<Rightarrow> string \<Rightarrow> string list \<Rightarrow> bool \<Rightarrow> interp_call list \<times> (py_error + interp_fun)" where
  "get_interp_fun env variable_name domain eval_on_edges =
     (case lookup (comsol_matrices env) variable_name of
        Inl e \<Rightarrow> ([], Inl e)
      | Inr variable0 \<Rightarrow>
          (case comsol_x_of env domain of
             Inl e \<Rightarrow> ([], Inl e)
           | Inr comsol_x \<Rightarrow>
               ([Interp1d interp_kind Axis0],
                case interp1d_axis0 (spline env) interp_kind comsol_x variable0
                       (pybamm_x env domain eval_on_edges) of
                  Inl e \<Rightarrow> Inl e
                | Inr v \<Rightarrow>
                    Inr \<lparr>variable = v, fun_name = variable_name @ ''_comsol'',
                         fun_domain = domain\<rparr>)))"

definition myinterp ::
  "plot_env \<Rightarrow> interp_fun \<Rightarrow> real \<Rightarrow> interp_call list \<times> (py_error + real array2)" where
  "myinterp env f t =
     ([Interp1d interp_kind AxisLast],
      case interp1d_last_axis (spline env) interp_kind (comsol_t env) (variable f) t of
        Inl e \<Rightarrow> Inl e
      | Inr v \<Rightarrow> Inr (newaxis v))"

text \<open>
  The function is evaluated at a non-dimensional time \<open>t\<close> by calling \<open>myinterp\<close> at
  \<open>t * tau\<close>; \<open>query_calls\<close> collects the calls made by a sequence of evaluations.
\<close>

definition evaluate_fun ::
  "plot_env \<Rightarrow> interp_fun \<Rightarrow> real \<Rightarrow> interp_call list \<times> (py_error + real array2)" where
  "evaluate_fun env f t = myinterp env f (t * tau env)"


text \<open>
  The kind selection as the specification words it, by the number of nodes, to compare
  with the constant \<open>interp_kind\<close>; and an instance of the globals to evaluate on.
\<close>

definition spec_interp_kind :: "nat \<Rightarrow> kind" where
  "spec_interp_kind n = (if n < 4 then Linear else Cubic)"

definition example_env :: "real list \<Rightarrow> plot_env" where
  "example_env x_n =
     \<lparr>comsol_vectors = [''x_n'' \<mapsto> x_n],
      comsol_matrices =
        [''phi_n'' \<mapsto> \<lparr>ncols = 4, rows = map (\<lambda>x. [x, x + 1, x + 2, x + 3]) x_n\<rparr>],
      comsol_t = [0, 10, 20, 30],
      L_x = 2,
      tau = 10,
      mesh_nodes = (\<lambda>d. [1 / 4, 3 / 4]),
      mesh_edges = (\<lambda>d. [0, 1 / 2, 1]),
      spline = (\<lambda>k x y q. q + sum_list y)\<rparr>"

text \<open>
  \<^verbatim>\<open>comsol_voltage = interp.interp1d(comsol_t, comsol_variables["voltage"], kind=interp_kind)\<close>
  of both supplementary scripts, evaluated at a dimensional time.
\<close>

definition interp1d_vector ::
  "(kind \<Rightarrow> real list \<Rightarrow> real list \<Rightarrow> real \<Rightarrow> real) \<Rightarrow> kind \<Rightarrow> real list \<Rightarrow> real list
    \<Rightarrow> real \<Rightarrow> py_error + real" where
  "interp1d_vector spl k x y q =
     (if length x \<noteq> length y then Inl ValueError
      else if length x < min_entries k then Inl ValueError
      else if out_of_bounds x q then Inl ValueError
      else Inr (spl k x y q))"

definition comsol_voltage ::
  "(kind \<Rightarrow> real list \<Rightarrow> real list \<Rightarrow> real \<Rightarrow> real) \<Rightarrow> real list \<Rightarrow> real list \<Rightarrow> real
    \<Rightarrow> py_error + real" where
  "comsol_voltage spl comsol_time voltage q =
     interp1d_vector spl interp_kind comsol_time voltage q"


section \<open>Properties of the array operations\<close>

lemma rows_single_instant_branch:
  "rows (single_instant_branch (evaluate_0d f) [t0] z) = replicate (length z) [f t0]"
  by (simp add: single_instant_branch_def repeat_axis0_def newaxis_def evaluate_0d_def)

lemma ncols_single_instant_branch:
  "ncols (single_instant_branch I_av t z) = 1"
  by (simp add: single_instant_branch_def repeat_axis0_def newaxis_def)

lemma rows_repeat_axis1_newaxis:
  "rows (repeat_axis1 (newaxis a) k) = map (replicate k) a"
  by (simp add: repeat_axis1_def newaxis_def comp_def)

lemma ncols_repeat_axis1_newaxis:
  "ncols (repeat_axis1 (newaxis a) k) = k"
  by (simp add: repeat_axis1_def newaxis_def)

lemma column_of_replicated:
  assumes "j < k"
  shows "map (\<lambda>r. r ! j) (map (replicate k) a) = a"
proof -
  have "map (\<lambda>r. r ! j) (map (replicate k) a) = map (\<lambda>x. replicate k x ! j) a"
    by (simp add: comp_def)
  also have "\<dots> = map (\<lambda>x. x) a"
    using assms by simp
  finally show ?thesis by simp
qed

lemma rows_general_branch:
  "rows (general_branch I_av t z) = replicate (length z) (I_av t)"
proof -
  have "map (\<lambda>j. map (\<lambda>r. r ! j) (map (replicate (length z)) (I_av t))) [0..<length z]
        = map (\<lambda>j. I_av t) [0..<length z]"
    by (rule map_cong) (simp_all add: column_of_replicated del: map_map)
  also have "\<dots> = replicate (length z) (I_av t)"
    by (simp add: map_replicate_const)
  finally show ?thesis
    by (simp add: general_branch_def np_transpose_def rows_repeat_axis1_newaxis
        ncols_repeat_axis1_newaxis)
qed

lemma ncols_general_branch:
  "ncols (general_branch I_av t z) = length (I_av t)"
  by (simp add: general_branch_def np_transpose_def rows_repeat_axis1_newaxis)

lemma pybamm_bar_var_fun_grid:
  "pybamm_bar_var_fun (evaluate_0d f) t z =
     \<lparr>ncols = length t, rows = replicate (length z) (map f t)\<rparr>"
proof (cases "length t = 1")
  case True
  then obtain t0 where t: "t = [t0]"
    by (cases t) auto
  show ?thesis
    unfolding t pybamm_bar_var_fun_def
    by (simp add: single_instant_branch_def repeat_axis0_def newaxis_def evaluate_0d_def)
next
  case False
  have "general_branch (evaluate_0d f) t z =
          \<lparr>ncols = length t, rows = replicate (length z) (map f t)\<rparr>"
    using rows_general_branch [of "evaluate_0d f" t z]
      ncols_general_branch [of "evaluate_0d f" t z]
    by (cases "general_branch (evaluate_0d f) t z") (simp add: evaluate_0d_def)
  with False show ?thesis
    by (simp add: pybamm_bar_var_fun_def)
qed

lemma general_branch_grid:
  "general_branch (evaluate_0d f) t z =
     \<lparr>ncols = length t, rows = replicate (length z) (map f t)\<rparr>"
  using rows_general_branch [of "evaluate_0d f" t z]
    ncols_general_branch [of "evaluate_0d f" t z]
  by (cases "general_branch (evaluate_0d f) t z") (simp add: evaluate_0d_def)

lemma sub_scalar_grid:
  "sub_scalar \<lparr>ncols = n, rows = replicate m r\<rparr> c =
     \<lparr>ncols = n, rows = replicate m (map (\<lambda>a. a - c) r)\<rparr>"
  by (simp add: sub_scalar_def)

lemma pybamm_bar_var_fun_temperature_grid:
  "pybamm_bar_var_fun_temperature (evaluate_0d g) c t z =
     \<lparr>ncols = length t, rows = replicate (length z) (map (\<lambda>s. g s - c) t)\<rparr>"
proof -
  have "pybamm_bar_var_fun_temperature (evaluate_0d g) c t z =
          sub_scalar (pybamm_bar_var_fun (evaluate_0d g) t z) c"
    by (simp add: pybamm_bar_var_fun_temperature_def pybamm_bar_var_fun_def)
  then show ?thesis
    by (simp add: pybamm_bar_var_fun_grid sub_scalar_grid comp_def)
qed

lemma branches_agree_at_single_instant:
  "single_instant_branch (evaluate_0d h) [t0] z = general_branch (evaluate_0d h) [t0] z"
  using pybamm_bar_var_fun_grid [of h "[t0]" z] general_branch_grid [of h "[t0]" z]
  by (simp add: pybamm_bar_var_fun_def)

lemma map2_same:
  "map2 f (map g xs) (map h xs) = map (\<lambda>x. f (g x) (h x)) xs"
  by (induction xs) simp_all

lemma V_av_pointwise:
  "V_av V_av_1D I_av R t = map (\<lambda>s. V_av_1D s - I_av s * R) t"
proof -
  have "map2 (-) (map V_av_1D t) (map (\<lambda>i. i * R) (map I_av t)) =
        map2 (-) (map V_av_1D t) (map (\<lambda>s. I_av s * R) t)"
    by (simp add: comp_def)
  then show ?thesis
    by (simp add: V_av_def evaluate_0d_def map2_same del: map_map)
qed

lemma V_av_dim_pointwise:
  "V_av_dim inp R t =
     map (\<lambda>s. U_ref inp
        + (average_dfn inp ''Terminal voltage'' s
            - average_dfn inp ''Total current density'' s * R) * potential_scale inp) t"
  by (simp add: V_av_dim_def V_av_script_def V_av_pointwise comp_def)

lemma sub_row_grid:
  "sub_row (evaluate_1d g t z) (map h t) = Inr (evaluate_1d (\<lambda>ti zj. g ti zj - h ti) t z)"
proof -
  have "map (\<lambda>r. map2 (-) r (map h t)) (map (\<lambda>zj. map (\<lambda>ti. g ti zj) t) z) =
        map (\<lambda>zj. map (\<lambda>ti. g ti zj - h ti) t) z"
    by (induction z) (simp_all add: map2_same del: map_map)
  then show ?thesis
    by (simp add: sub_row_def evaluate_1d_def)
qed

lemma sub_scalar_evaluate_1d:
  "sub_scalar (evaluate_1d g t z) c = evaluate_1d (\<lambda>ti zj. g ti zj - c) t z"
  by (simp add: sub_scalar_def evaluate_1d_def comp_def)

lemma abs_sub_sub_scalar:
  "abs_sub (sub_scalar A c) (sub_scalar B c) = abs_sub A B"
proof -
  have row: "map2 (\<lambda>a b. \<bar>a - b\<bar>) (map (\<lambda>a. a - c) r) (map (\<lambda>a. a - c) r') =
             map2 (\<lambda>a b. \<bar>a - b\<bar>) r r'" for r r' :: "real list"
    by (induction r r' rule: list_induct2') simp_all
  have "map2 (map2 (\<lambda>a b. \<bar>a - b\<bar>)) (map (map (\<lambda>a. a - c)) rs) (map (map (\<lambda>a. a - c)) rs') =
        map2 (map2 (\<lambda>a b. \<bar>a - b\<bar>)) rs rs'" for rs rs' :: "real list list"
    by (induction rs rs' rule: list_induct2') (simp_all add: row)
  then show ?thesis
    by (simp add: abs_sub_def sub_scalar_def)
qed

lemma bar_temperature_as_sub_scalar:
  "pybamm_bar_var_fun_temperature I c t z = sub_scalar (pybamm_bar_var_fun I t z) c"
  by (simp add: pybamm_bar_var_fun_temperature_def pybamm_bar_var_fun_def)

lemma masked_time_subset: "set (masked_time time voltage c) \<subseteq> set time"
  unfolding masked_time_def by (auto dest: set_zip_leftD)

lemma length_masked_time:
  "length voltage = length time \<Longrightarrow>
   length (masked_time time voltage c) = length (voltage_OK voltage c)"
  unfolding masked_time_def voltage_OK_def
  by (induction time voltage rule: list_induct2') simp_all

lemma masked_time_Cons:
  "masked_time (s # ts) (v # vs) c =
     (if v > c then s # masked_time ts vs c else masked_time ts vs c)"
  by (simp add: masked_time_def)

lemma voltage_OK_Cons:
  "voltage_OK (v # vs) c = (if v > c then v # voltage_OK vs c else voltage_OK vs c)"
  by (simp add: voltage_OK_def)

lemma prefix_equals_mask_iff:
  assumes "length voltage = length time" and "distinct time"
  shows "(restrict_time time voltage c = masked_time time voltage c)
          = crosses_at_most_once_from_above voltage c"
  using assms
proof (induction time voltage rule: list_induct2')
  case 1
  show ?case by (simp add: restrict_time_def masked_time_def voltage_OK_def
        crosses_at_most_once_from_above_def)
next
  case (2 s ts)
  then show ?case by simp
next
  case (3 v vs)
  then show ?case by simp
next
  case (4 s ts v vs)
  then have len: "length vs = length ts" and dist: "distinct ts" and notin: "s \<notin> set ts"
    by simp_all
  note IH = "4.IH" [OF len dist]
  show ?case
  proof (cases "v > c")
    case True
    then show ?thesis
      using IH
      by (simp add: restrict_time_def masked_time_Cons voltage_OK_Cons
          crosses_at_most_once_from_above_def)
  next
    case False
    show ?thesis
    proof (cases "voltage_OK vs c = []")
      case True
      then have "masked_time ts vs c = []"
        using length_masked_time [OF len, of c] by simp
      moreover from True have "list_all (\<lambda>v. \<not> v > c) vs"
        by (simp add: voltage_OK_def filter_empty_conv list_all_iff)
      ultimately show ?thesis
        using False True
        by (simp add: restrict_time_def masked_time_Cons voltage_OK_Cons
            crosses_at_most_once_from_above_def)
    next
      case nonempty: False
      then obtain k where k: "length (voltage_OK vs c) = Suc k"
        by (cases "voltage_OK vs c") auto
      have "restrict_time (s # ts) (v # vs) c \<noteq> masked_time (s # ts) (v # vs) c"
      proof
        assume "restrict_time (s # ts) (v # vs) c = masked_time (s # ts) (v # vs) c"
        then have "s # take k ts = masked_time ts vs c"
          using False k by (simp add: restrict_time_def masked_time_Cons voltage_OK_Cons)
        then have "s \<in> set (masked_time ts vs c)"
          by (metis list.set_intros(1))
        with masked_time_subset [of ts vs c] notin show False
          by blast
      qed
      moreover have "\<not> list_all (\<lambda>v. \<not> v > c) vs"
        using nonempty by (simp add: voltage_OK_def filter_empty_conv list_all_iff)
      ultimately show ?thesis
        using False
        by (simp add: crosses_at_most_once_from_above_def)
    qed
  qed
qed

lemma prefix_differs_from_mask_example:
  "restrict_time [0, 1, 2 :: real] [4, 2, 4] 3 = [0, 1]
   \<and> masked_time [0, 1, 2 :: real] [4, 2, 4] 3 = [0, 2]
   \<and> \<not> crosses_at_most_once_from_above [4, 2, 4] 3"
  by (simp add: restrict_time_def voltage_OK_def masked_time_def
      crosses_at_most_once_from_above_def)

lemma interp_kind_min_entries: "min_entries interp_kind = 4"
  by (simp add: interp_kind_def min_entries_def)

lemma interp1d_axis0_Inr:
  assumes "interp1d_axis0 spl k x Y qs = Inr V"
  shows "min_entries k \<le> length x"
    and "V = \<lparr>ncols = ncols Y,
               rows = map (\<lambda>q. map (\<lambda>c. spl k x (column Y c) q) [0..<ncols Y]) qs\<rparr>"
  using assms by (auto simp: interp1d_axis0_def split: if_splits)

lemma interp1d_last_axis_Inr:
  assumes "interp1d_last_axis spl k x Y q = Inr v"
  shows "min_entries k \<le> length x"
    and "v = map (\<lambda>r. spl k x r q) (rows Y)"
  using assms by (auto simp: interp1d_last_axis_def split: if_splits)

lemma get_interp_fun_Inr:
  assumes "get_interp_fun env variable_name domain edges = (calls, Inr f)"
  obtains comsol_x Y where
    "comsol_x_of env domain = Inr comsol_x"
    "lookup (comsol_matrices env) variable_name = Inr Y"
    "interp1d_axis0 (spline env) interp_kind comsol_x Y (pybamm_x env domain edges)
       = Inr (variable f)"
    "calls = [Interp1d interp_kind Axis0]"
  using assms
  by (auto simp: get_interp_fun_def split: sum.splits)




lemma comsol_voltage_Inr:
  assumes "comsol_voltage spl comsol_time voltage q = Inr v"
  shows "4 \<le> length comsol_time" and "v = spl Cubic comsol_time voltage q"
  using assms
  by (auto simp: comsol_voltage_def interp1d_vector_def interp_kind_def min_entries_def
      split: if_splits)

lemma length_concat_grid:
  "length (concat (map (\<lambda>zj. map h t) z)) = length t * length z"
  by (simp add: map_replicate_const length_concat sum_list_replicate)

lemma get_interp_fun_fewer_than_four_nodes:
  assumes "lookup (comsol_matrices env) variable_name = Inr Y"
    and "comsol_x_of env domain = Inr comsol_x"
    and "length comsol_x < 4"
  shows "get_interp_fun env variable_name domain edges =
           ([Interp1d Cubic Axis0], Inl ValueError)"
  using assms
  by (simp add: get_interp_fun_def interp1d_axis0_def interp_kind_def min_entries_def)

lemma evaluate_fun_fewer_than_four_samples:
  assumes "length (comsol_t env) < 4"
  shows "evaluate_fun env f t = ([Interp1d Cubic AxisLast], Inl ValueError)"
  using assms
  by (simp add: evaluate_fun_def myinterp_def interp1d_last_axis_def interp_kind_def
      min_entries_def)

section \<open>Claims\<close>

text \<open>
  C3. For every time vector \<open>t\<close> and every lateral query vector \<open>[z1, z2, z3]\<close>, the
  broadcast reconstruction of a laterally invariant quantity has one row per lateral
  point, and the three rows are the same time series: the values at \<open>z1\<close>, \<open>z2\<close> and
  \<open>z3\<close> are identical for every time, a repeat of the scalar series and no
  interpolation in \<open>z\<close> (the result does not depend on the values of \<open>z1\<close>, \<open>z2\<close>, \<open>z3\<close>
  at all).
\<close>

theorem broadcast_identical_across_lateral_axis:
  "rows (pybamm_bar_var_fun (evaluate_0d f) t [z1, z2, z3]) =
     [evaluate_0d f t, evaluate_0d f t, evaluate_0d f t]"
  by (simp add: pybamm_bar_var_fun_grid evaluate_0d_def numeral_3_eq_3)

text \<open>
  C2. For the through-cell current density and for the lumped temperature, and every
  spatial vector \<open>z\<close>, the reconstruction at the single instant \<open>[t0]\<close> equals the
  reconstruction at \<open>[t0, t0]\<close> restricted to its first time column; and at a time
  vector of length one the \<open>t.shape[0] == 1\<close> branch and the \<open>else\<close> branch compute
  the same array.
\<close>

theorem single_instant_agrees_with_general_path:
  "pybamm_bar_var_fun (evaluate_0d f) [t0] z =
     slice_cols (pybamm_bar_var_fun (evaluate_0d f) [t0, t0] z) 0 1
   \<and> pybamm_bar_var_fun_temperature (evaluate_0d g) c [t0] z =
     slice_cols (pybamm_bar_var_fun_temperature (evaluate_0d g) c [t0, t0] z) 0 1
   \<and> single_instant_branch (evaluate_0d f) [t0] z = general_branch (evaluate_0d f) [t0] z
   \<and> sub_scalar (single_instant_branch (evaluate_0d g) [t0] z) c =
     sub_scalar (general_branch (evaluate_0d g) [t0] z) c"
proof -
  have current: "pybamm_bar_var_fun (evaluate_0d f) [t0] z =
     slice_cols (pybamm_bar_var_fun (evaluate_0d f) [t0, t0] z) 0 1"
    by (simp add: pybamm_bar_var_fun_grid slice_cols_def)
  have temperature: "pybamm_bar_var_fun_temperature (evaluate_0d g) c [t0] z =
     slice_cols (pybamm_bar_var_fun_temperature (evaluate_0d g) c [t0, t0] z) 0 1"
    by (simp add: pybamm_bar_var_fun_temperature_grid slice_cols_def sub_scalar_def)
  from current temperature show ?thesis
    by (simp add: branches_agree_at_single_instant)
qed

text \<open>
  C5, as stated, fails: for two times and three lateral points the reconstruction has
  three rows of two entries, shape \<open>(len(space), len(time))\<close>, and not the shape
  \<open>(len(time), len(space))\<close>; the same holds of the temperature closure.
\<close>

theorem broadcast_shape_is_not_time_by_space:
  "shape (pybamm_bar_var_fun (evaluate_0d id) [0, 1 :: real] [0, 1, 2 :: real]) = (3, 2)
   \<and> shape (pybamm_bar_var_fun (evaluate_0d id) [0, 1 :: real] [0, 1, 2 :: real])
       \<noteq> (length [0, 1 :: real], length [0, 1, 2 :: real])
   \<and> rows (pybamm_bar_var_fun (evaluate_0d id) [0, 1 :: real] [0, 1, 2 :: real])
       = [[0, 1], [0, 1], [0, 1]]
   \<and> shape (pybamm_bar_var_fun_temperature (evaluate_0d id) 1 [0, 1 :: real] [0, 1, 2 :: real])
       \<noteq> (length [0, 1 :: real], length [0, 1, 2 :: real])"
proof -
  have current: "pybamm_bar_var_fun (evaluate_0d id) [0, 1 :: real] [0, 1, 2 :: real] =
      \<lparr>ncols = 2, rows = [[0, 1], [0, 1], [0, 1]]\<rparr>"
    by (simp add: pybamm_bar_var_fun_grid numeral_3_eq_3)
  have temperature:
    "pybamm_bar_var_fun_temperature (evaluate_0d id) 1 [0, 1 :: real] [0, 1, 2 :: real] =
      \<lparr>ncols = 2, rows = [[- 1, 0], [- 1, 0], [- 1, 0]]\<rparr>"
    by (simp add: pybamm_bar_var_fun_temperature_grid numeral_3_eq_3)
  show ?thesis
    unfolding current temperature
    by (simp add: shape_def)
qed

text \<open>
  C5, amended. For a time vector \<open>t\<close> and a lateral vector \<open>z\<close> the broadcast
  reconstruction, of the current density and of the temperature alike, is the full
  grid over the two vectors, of shape \<open>(len(space), len(time))\<close>: one row per entry
  of \<open>z\<close>, one column per entry of \<open>t\<close>, so \<open>length t * length z\<close> entries, one per
  (time, space) pair, and the entry of the pair \<open>(ti, zj)\<close>, at row \<open>j\<close> and column
  \<open>i\<close>, is the series at \<open>ti\<close> (minus the reference temperature for the
  temperature).
\<close>

theorem broadcast_is_outer_product_grid:
  "pybamm_bar_var_fun (evaluate_0d f) t z =
     \<lparr>ncols = length t, rows = map (\<lambda>zj. map (\<lambda>ti. f ti) t) z\<rparr>
   \<and> shape (pybamm_bar_var_fun (evaluate_0d f) t z) = (length z, length t)
   \<and> length (concat (rows (pybamm_bar_var_fun (evaluate_0d f) t z))) = length t * length z
   \<and> pybamm_bar_var_fun_temperature (evaluate_0d g) c t z =
     \<lparr>ncols = length t, rows = map (\<lambda>zj. map (\<lambda>ti. g ti - c) t) z\<rparr>
   \<and> shape (pybamm_bar_var_fun_temperature (evaluate_0d g) c t z) = (length z, length t)
   \<and> length (concat (rows (pybamm_bar_var_fun_temperature (evaluate_0d g) c t z)))
       = length t * length z"
proof -
  have current: "pybamm_bar_var_fun (evaluate_0d f) t z =
     \<lparr>ncols = length t, rows = map (\<lambda>zj. map (\<lambda>ti. f ti) t) z\<rparr>"
    by (simp add: pybamm_bar_var_fun_grid map_replicate_const)
  have temperature: "pybamm_bar_var_fun_temperature (evaluate_0d g) c t z =
     \<lparr>ncols = length t, rows = map (\<lambda>zj. map (\<lambda>ti. g ti - c) t) z\<rparr>"
    by (simp add: pybamm_bar_var_fun_temperature_grid map_replicate_const)
  show ?thesis
    unfolding current temperature
    by (simp add: shape_def length_concat_grid)
qed

text \<open>
  C1. For every query time vector \<open>t\<close> the corrected average potential is, entry by
  entry, the averaged model's terminal voltage minus its total current density times
  the effective resistance. The resistance is one scalar, the entry \<open>[0][0]\<close> of the
  evaluated current-collector variable; it is bound before \<open>V_av\<close> is called and is
  the same for every entry of \<open>t\<close>.
\<close>

theorem V_av_is_terminal_voltage_minus_resistive_drop:
  "V_av_script inp R t =
     map (\<lambda>s. average_dfn inp ''Terminal voltage'' s
               - average_dfn inp ''Total current density'' s * R) t
   \<and> R_cc (inp\<lparr>effective_resistance := (r # row) # others\<rparr>) = Inr r"
  by (simp add: V_av_script_def V_av_pointwise R_cc_def)

text \<open>
  C4. The negative-collector closure is the processed potential as it is, with no
  offset. The positive-collector closure subtracts the dimensional corrected average
  voltage: when the processed potential is a spatial variable \<open>\<phi>\<close>, the value
  compared at \<open>(ti, zj)\<close> is \<open>\<phi> ti zj\<close> minus \<open>V_av_dim\<close> at \<open>ti\<close>, and not
  \<open>\<phi> ti zj\<close> itself.
\<close>

theorem positive_collector_referenced_to_terminal_voltage:
  assumes "potentials inp R ''Positive current collector potential [V]'' = evaluate_1d \<phi>"
  shows "pybamm_bar_var_fun_positive inp R t z =
     Inr (evaluate_1d (\<lambda>ti zj. \<phi> ti zj
            - (U_ref inp + (average_dfn inp ''Terminal voltage'' ti
                - average_dfn inp ''Total current density'' ti * R) * potential_scale inp)) t z)
   \<and> pybamm_bar_var_fun_negative inp R t z =
       potentials inp R ''Negative current collector potential [V]'' t z"
  using assms
  by (simp add: pybamm_bar_var_fun_positive_def pybamm_bar_var_fun_negative_def
      V_av_dim_pointwise sub_row_grid)

theorem positive_collector_referenced_to_terminal_voltage_witness:
  "potentials example_inputs 2 ''Positive current collector potential [V]''
     = evaluate_1d (\<lambda>s y. s + 10 * y)
   \<and> pybamm_bar_var_fun_positive example_inputs 2 [0, 1] [0, 1, 2] =
       Inr \<lparr>ncols = 2, rows = [[-10, -6], [0, 4], [10, 14]]\<rparr>
   \<and> pybamm_bar_var_fun_negative example_inputs 2 [0, 1] [0, 1, 2] =
       \<lparr>ncols = 2, rows = [[0, 1], [10, 11], [20, 21]]\<rparr>"
proof -
  have h: "potentials example_inputs 2 ''Positive current collector potential [V]''
     = evaluate_1d (\<lambda>s y. s + 10 * y)"
    by (simp add: potentials_def example_inputs_def)
  show ?thesis
    using h positive_collector_referenced_to_terminal_voltage [OF h, of "[0, 1]" "[0, 1, 2]"]
    by (simp add: evaluate_1d_def example_inputs_def U_ref_def potentials_def)
qed

text \<open>
  C7. In the temperature comparison the reference field, the 1+1D field and the
  broadcast averaged field are each the raw temperature minus the same \<open>T_ref\<close>,
  and the absolute difference of any two of the three adjusted fields is the absolute
  difference of the two raw fields: the shared offset cancels (over the reals).
\<close>

theorem shared_reference_temperature_cancels:
  "comsol_var_fun_temperature inp t z =
     evaluate_1d (\<lambda>ti zj. comsol inp ''X-averaged cell temperature [K]'' ti zj - T_ref inp) t z
   \<and> pybamm_var_fun_temperature inp t z =
     evaluate_1d (\<lambda>ti zj. full_dfn inp ''X-averaged cell temperature [K]'' ti zj - T_ref inp) t z
   \<and> pybamm_bar_var_fun_temperature_script inp t z =
     evaluate_1d (\<lambda>ti zj. average_dfn inp ''X-averaged cell temperature [K]'' ti - T_ref inp) t z
   \<and> abs_sub (comsol_var_fun_temperature inp t z) (pybamm_var_fun_temperature inp t z) =
     abs_sub (evaluate_1d (comsol inp ''X-averaged cell temperature [K]'') t z)
       (evaluate_1d (full_dfn inp ''X-averaged cell temperature [K]'') t z)
   \<and> abs_sub (comsol_var_fun_temperature inp t z) (pybamm_bar_var_fun_temperature_script inp t z) =
     abs_sub (evaluate_1d (comsol inp ''X-averaged cell temperature [K]'') t z)
       (pybamm_bar_var_fun (T_av inp) t z)
   \<and> abs_sub (pybamm_var_fun_temperature inp t z) (pybamm_bar_var_fun_temperature_script inp t z) =
     abs_sub (evaluate_1d (full_dfn inp ''X-averaged cell temperature [K]'') t z)
       (pybamm_bar_var_fun (T_av inp) t z)"
proof -
  have bar: "pybamm_bar_var_fun_temperature_script inp t z =
               sub_scalar (pybamm_bar_var_fun (T_av inp) t z) (T_ref inp)"
    by (simp add: pybamm_bar_var_fun_temperature_script_def bar_temperature_as_sub_scalar)
  have grid: "pybamm_bar_var_fun_temperature_script inp t z =
     evaluate_1d (\<lambda>ti zj. average_dfn inp ''X-averaged cell temperature [K]'' ti - T_ref inp) t z"
    by (simp add: pybamm_bar_var_fun_temperature_script_def T_av_def
        pybamm_bar_var_fun_temperature_grid evaluate_1d_def map_replicate_const)
  have comsol: "comsol_var_fun_temperature inp t z =
     evaluate_1d (\<lambda>ti zj. comsol inp ''X-averaged cell temperature [K]'' ti zj - T_ref inp) t z"
    by (simp add: comsol_var_fun_temperature_def sub_scalar_evaluate_1d)
  have full: "pybamm_var_fun_temperature inp t z =
     evaluate_1d (\<lambda>ti zj. full_dfn inp ''X-averaged cell temperature [K]'' ti zj - T_ref inp) t z"
    by (simp add: pybamm_var_fun_temperature_def sub_scalar_evaluate_1d)
  have d1: "abs_sub (comsol_var_fun_temperature inp t z) (pybamm_var_fun_temperature inp t z) =
     abs_sub (evaluate_1d (comsol inp ''X-averaged cell temperature [K]'') t z)
       (evaluate_1d (full_dfn inp ''X-averaged cell temperature [K]'') t z)"
    unfolding comsol_var_fun_temperature_def pybamm_var_fun_temperature_def
    by (rule abs_sub_sub_scalar)
  have d2: "abs_sub (comsol_var_fun_temperature inp t z) (pybamm_bar_var_fun_temperature_script inp t z) =
     abs_sub (evaluate_1d (comsol inp ''X-averaged cell temperature [K]'') t z)
       (pybamm_bar_var_fun (T_av inp) t z)"
    unfolding comsol_var_fun_temperature_def bar
    by (rule abs_sub_sub_scalar)
  have d3: "abs_sub (pybamm_var_fun_temperature inp t z) (pybamm_bar_var_fun_temperature_script inp t z) =
     abs_sub (evaluate_1d (full_dfn inp ''X-averaged cell temperature [K]'') t z)
       (pybamm_bar_var_fun (T_av inp) t z)"
    unfolding pybamm_var_fun_temperature_def bar
    by (rule abs_sub_sub_scalar)
  from grid comsol full d1 d2 d3 show ?thesis
    by blast
qed

text \<open>
  C8. The dimensional average voltage is the affine conversion of the corrected
  average voltage, entry by entry: reference offset plus non-dimensional value times
  the potential scale, the offset being the positive reference potential minus the
  negative one. This dimensional voltage is what the positive-collector closure
  subtracts from the processed potential.
\<close>

theorem V_av_dim_is_affine_conversion:
  "V_av_dim inp R t =
     map (to_dimensional_potential (U_p_ref inp - U_n_ref inp) (potential_scale inp))
       (V_av_script inp R t)
   \<and> pybamm_bar_var_fun_positive inp R t z =
       sub_row (potentials inp R ''Positive current collector potential [V]'' t z)
         (map (to_dimensional_potential (U_p_ref inp - U_n_ref inp) (potential_scale inp))
            (V_av_script inp R t))"
proof -
  have "V_av_dim inp R t =
     map (to_dimensional_potential (U_p_ref inp - U_n_ref inp) (potential_scale inp))
       (V_av_script inp R t)"
    by (simp add: V_av_dim_def U_ref_def to_dimensional_potential_def comp_def)
  then show ?thesis
    by (simp add: pybamm_bar_var_fun_positive_def)
qed

text \<open>
  C10. The restricted time vector is the first \<open>k\<close> entries of the solution's time
  vector, \<open>k\<close> being the number of voltage samples strictly above the cut-off: a prefix
  chosen by a count, not by the mask. For distinct times it equals the selection by
  the mask, that is, it keeps exactly the samples above the cut-off, if and only if no
  sample above the cut-off comes after one that is not: the series crosses the cut-off
  at most once, from above.
\<close>

theorem cutoff_restriction_is_count_based_prefix:
  assumes "length voltage = length time" and "distinct time"
  shows "restrict_time time voltage V_cutoff =
           take (length (filter (\<lambda>v. V_cutoff < v) voltage)) time
         \<and> ((restrict_time time voltage V_cutoff = masked_time time voltage V_cutoff)
             = crosses_at_most_once_from_above voltage V_cutoff)"
  using prefix_equals_mask_iff [OF assms, of V_cutoff]
  by (simp add: restrict_time_def voltage_OK_def)

theorem cutoff_restriction_is_count_based_prefix_witness:
  "length [4, 7 / 2, 2, 1 :: real] = length [0, 1, 2, 3 :: real]
   \<and> distinct [0, 1, 2, 3 :: real]
   \<and> restrict_time [0, 1, 2, 3 :: real] [4, 7 / 2, 2, 1] 3 = [0, 1]
   \<and> masked_time [0, 1, 2, 3 :: real] [4, 7 / 2, 2, 1] 3 = [0, 1]
   \<and> crosses_at_most_once_from_above [4, 7 / 2, 2, 1] 3"
  using cutoff_restriction_is_count_based_prefix [of "[4, 7 / 2, 2, 1]" "[0, 1, 2, 3 :: real]" 3]
  by (simp add: restrict_time_def voltage_OK_def masked_time_def)


text \<open>
  C6, as stated, fails: with three spatial nodes the spatial stage is still requested
  as cubic, where the rule of the claim gives linear, and the evaluation raises
  \<open>ValueError\<close> instead of succeeding.
\<close>

theorem three_node_field_is_not_degraded_to_linear:
  "get_interp_fun (example_env [0, 1, 2]) ''phi_n'' [''negative electrode''] False =
     ([Interp1d Cubic Axis0], Inl ValueError)
   \<and> spec_interp_kind (length [0, 1, 2 :: real]) = Linear"
  by (simp add: get_interp_fun_def example_env_def lookup_def comsol_x_of_def
      interp1d_axis0_def interp_kind_def min_entries_def spec_interp_kind_def)

text \<open>
  C6, amended. Field evaluation of the reference data is a two-stage interpolation,
  first along the spatial axis at each stored time sample, then along the time axis,
  both of the fixed kind cubic. The kind never degrades to linear: whenever an
  evaluation succeeds, the field has at least four spatial nodes and at least four
  time samples.
\<close>

theorem two_stage_interpolation_is_cubic_throughout:
  assumes "get_interp_fun env variable_name domain edges = (calls, Inr f)"
    and "evaluate_fun env f t = (calls', Inr A)"
  shows "calls @ calls' = [Interp1d Cubic Axis0, Interp1d Cubic AxisLast]
    \<and> (\<exists>comsol_x Y.
          comsol_x_of env domain = Inr comsol_x
        \<and> lookup (comsol_matrices env) variable_name = Inr Y
        \<and> 4 \<le> length comsol_x
        \<and> 4 \<le> length (comsol_t env)
        \<and> A = newaxis
              (map (\<lambda>q. spline env Cubic (comsol_t env)
                          (map (\<lambda>c. spline env Cubic comsol_x (column Y c) q) [0..<ncols Y])
                          (t * tau env))
                 (pybamm_x env domain edges)))"
proof -
  from assms(1) obtain comsol_x Y where
    x: "comsol_x_of env domain = Inr comsol_x" and
    Y: "lookup (comsol_matrices env) variable_name = Inr Y" and
    v: "interp1d_axis0 (spline env) interp_kind comsol_x Y (pybamm_x env domain edges)
          = Inr (variable f)" and
    c: "calls = [Interp1d interp_kind Axis0]"
    by (rule get_interp_fun_Inr)
  from assms(2) obtain w where
    w: "interp1d_last_axis (spline env) interp_kind (comsol_t env) (variable f) (t * tau env)
          = Inr w" and
    A: "A = newaxis w" and
    c': "calls' = [Interp1d interp_kind AxisLast]"
    by (auto simp: evaluate_fun_def myinterp_def split: sum.splits)
  have nx: "4 \<le> length comsol_x"
    using interp1d_axis0_Inr(1) [OF v] by (simp add: interp_kind_min_entries)
  have nt: "4 \<le> length (comsol_t env)"
    using interp1d_last_axis_Inr(1) [OF w] by (simp add: interp_kind_min_entries)
  have rows: "rows (variable f) =
      map (\<lambda>q. map (\<lambda>c. spline env Cubic comsol_x (column Y c) q) [0..<ncols Y])
        (pybamm_x env domain edges)"
    using interp1d_axis0_Inr(2) [OF v] by (simp add: interp_kind_def)
  have "w = map (\<lambda>r. spline env Cubic (comsol_t env) r (t * tau env)) (rows (variable f))"
    using interp1d_last_axis_Inr(2) [OF w] by (simp add: interp_kind_def)
  then have "A = newaxis
              (map (\<lambda>q. spline env Cubic (comsol_t env)
                          (map (\<lambda>c. spline env Cubic comsol_x (column Y c) q) [0..<ncols Y])
                          (t * tau env))
                 (pybamm_x env domain edges))"
    using A by (simp add: rows comp_def)
  with x Y nx nt have "\<exists>comsol_x Y.
          comsol_x_of env domain = Inr comsol_x
        \<and> lookup (comsol_matrices env) variable_name = Inr Y
        \<and> 4 \<le> length comsol_x
        \<and> 4 \<le> length (comsol_t env)
        \<and> A = newaxis
              (map (\<lambda>q. spline env Cubic (comsol_t env)
                          (map (\<lambda>c. spline env Cubic comsol_x (column Y c) q) [0..<ncols Y])
                          (t * tau env))
                 (pybamm_x env domain edges))"
    by blast
  with c c' show ?thesis
    by (simp add: interp_kind_def)
qed

theorem two_stage_interpolation_is_cubic_throughout_witness:
  "get_interp_fun (example_env [0, 1, 2, 3]) ''phi_n'' [''negative electrode''] True =
     ([Interp1d Cubic Axis0],
      Inr \<lparr>variable = \<lparr>ncols = 4, rows = [[6, 10, 14, 18], [7, 11, 15, 19], [8, 12, 16, 20]]\<rparr>,
           fun_name = ''phi_n_comsol'', fun_domain = [''negative electrode'']\<rparr>)
   \<and> evaluate_fun (example_env [0, 1, 2, 3])
        \<lparr>variable = \<lparr>ncols = 4, rows = [[6, 10, 14, 18], [7, 11, 15, 19], [8, 12, 16, 20]]\<rparr>,
           fun_name = ''phi_n_comsol'', fun_domain = [''negative electrode'']\<rparr> 2
       = ([Interp1d Cubic AxisLast], Inr \<lparr>ncols = 1, rows = [[68], [72], [76]]\<rparr>)"
proof -
  have h1: "get_interp_fun (example_env [0, 1, 2, 3]) ''phi_n'' [''negative electrode''] True =
     ([Interp1d Cubic Axis0],
      Inr \<lparr>variable = \<lparr>ncols = 4, rows = [[6, 10, 14, 18], [7, 11, 15, 19], [8, 12, 16, 20]]\<rparr>,
           fun_name = ''phi_n_comsol'', fun_domain = [''negative electrode'']\<rparr>)"
    by (simp add: get_interp_fun_def example_env_def lookup_def comsol_x_of_def
      interp1d_axis0_def interp_kind_def min_entries_def out_of_bounds_def pybamm_x_def
      column_def upt_conv_Cons)
  have h2: "evaluate_fun (example_env [0, 1, 2, 3])
        \<lparr>variable = \<lparr>ncols = 4, rows = [[6, 10, 14, 18], [7, 11, 15, 19], [8, 12, 16, 20]]\<rparr>,
           fun_name = ''phi_n_comsol'', fun_domain = [''negative electrode'']\<rparr> 2
       = ([Interp1d Cubic AxisLast], Inr \<lparr>ncols = 1, rows = [[68], [72], [76]]\<rparr>)"
    by (simp add: evaluate_fun_def myinterp_def example_env_def interp1d_last_axis_def
        interp_kind_def min_entries_def out_of_bounds_def newaxis_def)
  show ?thesis
    using h1 h2 two_stage_interpolation_is_cubic_throughout [OF h1 h2]
    by simp
qed



end
